theory Spec2Isabelle
  imports Complex_Main
begin

section \<open>GPA and graduation planner: the arithmetic core\<close>

text \<open>
  A shallow embedding of \<^verbatim>\<open>schemas.py\<close> (the tables and the \<^verbatim>\<open>Course\<close> schema) and of
  the core functions of \<^verbatim>\<open>main.py\<close>: \<^verbatim>\<open>grade_to_points\<close>, \<^verbatim>\<open>compute_gpa\<close>,
  \<^verbatim>\<open>compute_cgpa\<close>, \<^verbatim>\<open>classify_honors\<close>, \<^verbatim>\<open>project_needed_average\<close> and
  \<^verbatim>\<open>generate_advice\<close>.

  Conventions of the model.
  \<^item> A Python \<^verbatim>\<open>float\<close> is a \<^typ>\<open>real\<close>: sums, products and quotients are exact, and
    comparisons are those of the reals. Binary rounding error, infinities and NaN are
    outside the model.
  \<^item> A Python \<^verbatim>\<open>str\<close> is a \<^typ>\<open>string\<close> of ASCII characters; \<^verbatim>\<open>upper\<close>,
    \<^verbatim>\<open>lower\<close> and \<^verbatim>\<open>strip\<close> act on the ASCII letters and the ASCII white space.
  \<^item> Every \<^verbatim>\<open>raise HTTPException(status_code=400, detail=...)\<close> is a value of the type
    \<open>error\<close>: one constructor per raise site, carrying the value that the detail
    text interpolates. A function that can raise returns \<open>error + 'a\<close>.
  \<^item> A dictionary whose iteration order matters is an association list in insertion
    order.
\<close>

subsection \<open>Strings\<close>

definition upper_char :: "char \<Rightarrow> char" where
  "upper_char c =
     (let n = (of_char c :: nat) in if 97 \<le> n \<and> n \<le> 122 then char_of (n - 32) else c)"


definition upper :: "string \<Rightarrow> string" where
  "upper s = map upper_char s"


text \<open>The ASCII characters for which \<^verbatim>\<open>str.isspace\<close> holds: tab, line feed, vertical tab,
  form feed, carriage return, the four separators 0x1C to 0x1F, and space.\<close>

definition is_space :: "char \<Rightarrow> bool" where
  "is_space c =
     (let n = (of_char c :: nat) in (9 \<le> n \<and> n \<le> 13) \<or> (28 \<le> n \<and> n \<le> 32))"

definition strip :: "string \<Rightarrow> string" where
  "strip s = rev (dropWhile is_space (rev (dropWhile is_space s)))"


subsection \<open>Numbers: rounding and printing\<close>

text \<open>\<^verbatim>\<open>round(x)\<close>: the nearest integer, a tie going to the even neighbour.\<close>

definition py_round :: "real \<Rightarrow> int" where
  "py_round x =
     (let f = \<lfloor>x\<rfloor>; d = x - of_int f
      in if d < 1 / 2 then f
         else if d > 1 / 2 then f + 1
         else if even f then f else f + 1)"

text \<open>\<^verbatim>\<open>round(x, 3)\<close>: the nearest multiple of one thousandth.\<close>

definition round3 :: "real \<Rightarrow> real" where
  "round3 x = of_int (py_round (x * 1000)) / 1000"

definition digit_char :: "nat \<Rightarrow> char" where
  "digit_char d = ''0123456789'' ! (d mod 10)"

fun show_nat :: "nat \<Rightarrow> string" where
  "show_nat n =
     (if n < 10 then [digit_char n] else show_nat (n div 10) @ [digit_char (n mod 10)])"

text \<open>
  What an f-string prints for a float, on the values it is applied to in this program:
  the non-negative multiples of one thousandth that \<^verbatim>\<open>round(_, 3)\<close> returns after the
  clamp to the range from 0 to 4. Python prints the integer part, a point, and the
  decimals without trailing zeros, keeping one decimal at least: \<^verbatim>\<open>4.0\<close>, \<^verbatim>\<open>3.3\<close>,
  \<^verbatim>\<open>3.067\<close>.
\<close>

definition float_repr :: "real \<Rightarrow> string" where
  "float_repr x =
     (let m = nat (py_round (x * 1000)); ip = m div 1000; fp = m mod 1000;
          ds = [digit_char (fp div 100), digit_char (fp div 10), digit_char fp];
          kept = rev (dropWhile (\<lambda>c. c = CHR ''0'') (rev ds))
      in show_nat ip @ ''.'' @ (if kept = [] then ''0'' else kept))"

subsection \<open>The tables of \<^verbatim>\<open>schemas.py\<close>\<close>

definition GradeLetter :: "string list" where
  "GradeLetter = [''A'', ''B'', ''C'', ''D'', ''E'', ''F'']"

definition GRADE_POINTS :: "(string \<times> real) list" where
  "GRADE_POINTS =
     [(''A'', 4.0), (''B'', 3.0), (''C'', 2.0), (''D'', 1.0), (''E'', 0.5), (''F'', 0.0)]"

definition HONORS_BANDS :: "(string \<times> real) list" where
  "HONORS_BANDS =
     [(''First Class Honors'', 3.70),
      (''Second Class Upper'', 3.30),
      (''Second Class Lower'', 2.70),
      (''Pass'', 2.00)]"

subsection \<open>The data model\<close>

record Course =
  code :: string
  name :: string
  credit_hours :: real
  grade :: "string option"
  semester :: "int option"
  category :: "string option"



record GPACalcResponse =
  gpa :: real
  total_points :: real
  total_credits :: real


record ProjectionResponse =
  proj_target_class :: string
  target_cgpa :: real
  needed_avg_gpa :: real
  message :: string


datatype error =
    InvalidGrade string
  | DuplicateCourse string
  | InvalidCreditHours string
  | UnknownTargetClass

subsection \<open>Construction of a \<^verbatim>\<open>Course\<close>\<close>

text \<open>The validator of the field \<^verbatim>\<open>code\<close>: \<^verbatim>\<open>v.strip().upper()\<close>.\<close>

definition normalize_code :: "string \<Rightarrow> string" where
  "normalize_code v = upper (strip v)"

text \<open>
  The schema \<^verbatim>\<open>Course\<close>. The field constraints are checked on the values received
  (\<^verbatim>\<open>min_length\<close> and \<^verbatim>\<open>max_length\<close> of \<^verbatim>\<open>code\<close> and \<^verbatim>\<open>name\<close>, \<^verbatim>\<open>gt=0, le=10\<close> of
  \<^verbatim>\<open>credit_hours\<close>, the literal type of \<^verbatim>\<open>grade\<close>, \<^verbatim>\<open>ge=1, le=12\<close> of \<^verbatim>\<open>semester\<close>),
  then the validator normalises the code. The argument holds the received values;
  \<open>None\<close> is the validation error.
\<close>

definition Course_validate :: "Course \<Rightarrow> Course option" where
  "Course_validate raw =
     (if 2 \<le> length (code raw) \<and> length (code raw) \<le> 16
         \<and> 2 \<le> length (name raw) \<and> length (name raw) \<le> 64
         \<and> 0 < credit_hours raw \<and> credit_hours raw \<le> 10
         \<and> (case grade raw of None \<Rightarrow> True | Some g \<Rightarrow> g \<in> set GradeLetter)
         \<and> (case semester raw of None \<Rightarrow> True | Some n \<Rightarrow> 1 \<le> n \<and> n \<le> 12)
      then Some (raw\<lparr>code := normalize_code (code raw)\<rparr>)
      else None)"

text \<open>What the schema guarantees of the two fields that the arithmetic reads.\<close>

definition Course_fields_ok :: "Course \<Rightarrow> bool" where
  "Course_fields_ok c =
     (0 < credit_hours c \<and> credit_hours c \<le> 10
      \<and> (case grade c of None \<Rightarrow> True | Some g \<Rightarrow> g \<in> set GradeLetter))"

subsection \<open>\<^verbatim>\<open>grade_to_points\<close> and \<^verbatim>\<open>compute_gpa\<close>\<close>

definition grade_to_points :: "string option \<Rightarrow> error + real option" where
  "grade_to_points g_opt =
     (case g_opt of
        None \<Rightarrow> Inr None
      | Some g \<Rightarrow>
          (case map_of GRADE_POINTS (upper g) of
             None \<Rightarrow> Inl (InvalidGrade g)
           | Some p \<Rightarrow> Inr (Some p)))"

text \<open>The loop of \<^verbatim>\<open>compute_gpa\<close>, with \<^verbatim>\<open>total_points\<close>, \<^verbatim>\<open>total_credits\<close> and
  \<^verbatim>\<open>seen\<close> as arguments.\<close>

fun gpa_loop :: "Course list \<Rightarrow> real \<Rightarrow> real \<Rightarrow> string set \<Rightarrow> error + (real \<times> real)" where
  "gpa_loop [] tp tc seen = Inr (tp, tc)"
| "gpa_loop (c # cs) tp tc seen =
     (if code c \<in> seen then Inl (DuplicateCourse (code c))
      else
        (case grade c of
           None \<Rightarrow> gpa_loop cs tp tc (insert (code c) seen)
         | Some g \<Rightarrow>
             (case grade_to_points (Some g) of
                Inl e \<Rightarrow> Inl e
              | Inr None \<Rightarrow> gpa_loop cs tp tc (insert (code c) seen)
              | Inr (Some pts) \<Rightarrow>
                  if credit_hours c \<le> 0 \<or> credit_hours c > 10
                  then Inl (InvalidCreditHours (code c))
                  else gpa_loop cs (tp + pts * credit_hours c) (tc + credit_hours c)
                         (insert (code c) seen))))"

definition compute_gpa :: "Course list \<Rightarrow> error + GPACalcResponse" where
  "compute_gpa cs =
     (case gpa_loop cs 0 0 {} of
        Inl e \<Rightarrow> Inl e
      | Inr (tp, tc) \<Rightarrow>
          Inr \<lparr>gpa = (if tc > 0 then round3 (tp / tc) else 0),
               total_points = round3 tp,
               total_credits = round3 tc\<rparr>)"

subsection \<open>\<^verbatim>\<open>compute_cgpa\<close>\<close>



subsection \<open>\<^verbatim>\<open>classify_honors\<close>\<close>

fun classify_loop :: "(string \<times> real) list \<Rightarrow> real \<Rightarrow> string" where
  "classify_loop [] x = ''Fail''"
| "classify_loop ((label, threshold) # bands) x =
     (if x \<ge> threshold then label else classify_loop bands x)"

definition classify_honors :: "real \<Rightarrow> string" where
  "classify_honors x = classify_loop HONORS_BANDS x"

subsection \<open>\<^verbatim>\<open>project_needed_average\<close>\<close>

definition msg_determined :: string where
  "msg_determined = ''No remaining credits. Your final classification is already determined.''"

definition msg_unreachable :: "string \<Rightarrow> string" where
  "msg_unreachable target =
     ''Even 4.0 average can'' @ [CHR 0x27] @ ''t reach '' @ target
       @ ''. Aim for the highest possible and consult advisor.''"

definition msg_needed :: "real \<Rightarrow> string \<Rightarrow> string" where
  "msg_needed needed target =
     ''You need an average GPA of '' @ float_repr needed
       @ '' across the remaining credits to achieve '' @ target @ ''.''"

definition project_needed_average ::
  "Course list \<Rightarrow> real \<Rightarrow> string \<Rightarrow> error + ProjectionResponse" where
  "project_needed_average completed remaining_credits target =
     (case map_of HONORS_BANDS target of
        None \<Rightarrow> Inl UnknownTargetClass
      | Some band \<Rightarrow>
          (case compute_gpa completed of
             Inl e \<Rightarrow> Inl e
           | Inr current \<Rightarrow>
               if remaining_credits \<le> 0
               then Inr \<lparr>proj_target_class = target, target_cgpa = band,
                         needed_avg_gpa = 0, message = msg_determined\<rparr>
               else
                 (let total_credits_final = total_credits current + remaining_credits;
                      required_points_remaining =
                        band * total_credits_final - total_points current;
                      needed =
                        round3 (max 0 (min 4 (required_points_remaining / remaining_credits)));
                      msg = (if needed > 4 then msg_unreachable target
                             else msg_needed needed target)
                  in Inr \<lparr>proj_target_class = target, target_cgpa = band,
                          needed_avg_gpa = needed, message = msg\<rparr>)))"

subsection \<open>\<^verbatim>\<open>generate_advice\<close>\<close>











subsection \<open>Vocabulary of the properties\<close>

text \<open>The graded courses of a list, the points one course adds to \<^verbatim>\<open>total_points\<close>, and
  the test of line 107 of \<^verbatim>\<open>main.py\<close> on a graded course.\<close>

definition graded_courses :: "Course list \<Rightarrow> Course list" where
  "graded_courses cs = filter (\<lambda>c. grade c \<noteq> None) cs"

definition course_points :: "Course \<Rightarrow> real" where
  "course_points c =
     (case grade c of
        None \<Rightarrow> 0
      | Some g \<Rightarrow> (case map_of GRADE_POINTS (upper g) of
                    None \<Rightarrow> 0
                  | Some p \<Rightarrow> p * credit_hours c))"

definition bad_hours :: "Course \<Rightarrow> bool" where
  "bad_hours c = (grade c \<noteq> None \<and> (credit_hours c \<le> 0 \<or> credit_hours c > 10))"

text \<open>A course as the tests of the repository write it: a code, credit hours and a
  grade; the name repeats the code, no semester, no category.\<close>

definition course_of :: "string \<Rightarrow> real \<Rightarrow> string option \<Rightarrow> Course" where
  "course_of c h g =
     \<lparr>code = c, name = c, credit_hours = h, grade = g, semester = None, category = None\<rparr>"

text \<open>The classifier in the words of the specification: the label of the first band of
  the table whose threshold is at most the input, and \<^verbatim>\<open>Fail\<close> when there is none.\<close>

definition classify_spec :: "real \<Rightarrow> string" where
  "classify_spec x =
     (case find (\<lambda>(label, threshold). threshold \<le> x) HONORS_BANDS of
        None \<Rightarrow> ''Fail''
      | Some (label, threshold) \<Rightarrow> label)"

section \<open>Properties\<close>

subsection \<open>Rounding\<close>

lemma py_round_le: "x \<le> of_int n \<Longrightarrow> py_round x \<le> n"
proof -
  assume le: "x \<le> of_int n"
  then have f: "\<lfloor>x\<rfloor> \<le> n" by (simp add: floor_le_iff)
  show ?thesis
  proof (cases "\<lfloor>x\<rfloor> = n")
    case True
    then have "x - of_int \<lfloor>x\<rfloor> \<le> 0" using le by simp
    then show ?thesis using True by (simp add: py_round_def Let_def)
  next
    case False
    then have "\<lfloor>x\<rfloor> + 1 \<le> n" using f by simp
    then show ?thesis by (simp add: py_round_def Let_def)
  qed
qed


lemma py_round_of_int: "py_round (of_int n) = n"
  by (simp add: py_round_def Let_def)

lemma round3_le_4: "x \<le> 4 \<Longrightarrow> round3 x \<le> 4"
  using py_round_le[of "x * 1000" 4000] by (simp add: round3_def)


lemma round3_4: "round3 4 = 4"
  using py_round_of_int[of 4000] by (simp add: round3_def)

lemma round3_thousandth: "round3 (of_int n / 1000) = of_int n / 1000"
  by (simp add: round3_def py_round_of_int)

subsection \<open>The grade table\<close>

lemma grade_points_table:
  "g \<in> set GradeLetter \<Longrightarrow>
     map_of GRADE_POINTS (upper g) =
       Some (if g = ''A'' then 4 else if g = ''B'' then 3 else if g = ''C'' then 2
             else if g = ''D'' then 1 else if g = ''E'' then 1 / 2 else 0)"
  by (auto simp: GradeLetter_def upper_def upper_char_def GRADE_POINTS_def)

lemma grade_points_GradeLetter:
  "g \<in> set GradeLetter \<Longrightarrow> \<exists>p. map_of GRADE_POINTS (upper g) = Some p \<and> 0 \<le> p \<and> p \<le> 4"
  by (simp add: grade_points_table)

lemma grade_to_points_GradeLetter:
  "g \<in> set GradeLetter \<Longrightarrow> \<exists>p. grade_to_points (Some g) = Inr (Some p)"
  using grade_points_GradeLetter[of g] by (auto simp: grade_to_points_def)

lemma fields_ok_recognised:
  "Course_fields_ok c \<Longrightarrow> grade c = Some g \<Longrightarrow> map_of GRADE_POINTS (upper g) \<noteq> None"
  using grade_points_GradeLetter[of g] by (auto simp: Course_fields_ok_def)

lemma fields_ok_not_bad: "Course_fields_ok c \<Longrightarrow> \<not> bad_hours c"
  by (auto simp: Course_fields_ok_def bad_hours_def)

subsection \<open>The loop of \<^verbatim>\<open>compute_gpa\<close>\<close>

lemma graded_courses_simps:
  "graded_courses [] = []"
  "graded_courses (c # cs) = (if grade c \<noteq> None then c # graded_courses cs else graded_courses cs)"
  by (simp_all add: graded_courses_def)

text \<open>With codes that do not repeat and grades of the table, the loop stops at the first
  graded course whose credit hours are out of range, and sums the graded courses
  otherwise.\<close>

lemma gpa_loop_recognised:
  assumes "distinct (map code cs)" and "set (map code cs) \<inter> seen = {}"
    and "\<forall>c\<in>set cs. \<forall>g. grade c = Some g \<longrightarrow> map_of GRADE_POINTS (upper g) \<noteq> None"
  shows "gpa_loop cs tp tc seen =
           (case find bad_hours cs of
              Some c \<Rightarrow> Inl (InvalidCreditHours (code c))
            | None \<Rightarrow> Inr (tp + sum_list (map course_points (graded_courses cs)),
                           tc + sum_list (map credit_hours (graded_courses cs))))"
  using assms
proof (induction cs arbitrary: tp tc seen)
  case Nil
  then show ?case by (simp add: graded_courses_def)
next
  case (Cons c cs)
  have notin: "code c \<notin> seen" using Cons.prems(2) by auto
  have disj: "set (map code cs) \<inter> insert (code c) seen = {}"
    using Cons.prems(1,2) by auto
  have IH: "\<And>tp tc. gpa_loop cs tp tc (insert (code c) seen) =
           (case find bad_hours cs of
              Some c \<Rightarrow> Inl (InvalidCreditHours (code c))
            | None \<Rightarrow> Inr (tp + sum_list (map course_points (graded_courses cs)),
                           tc + sum_list (map credit_hours (graded_courses cs))))"
    using Cons.IH[OF _ disj] Cons.prems(1,3) by simp
  show ?case
  proof (cases "grade c")
    case None
    then have "\<not> bad_hours c" by (simp add: bad_hours_def)
    then show ?thesis using notin IH None
      by (simp add: graded_courses_simps split: option.splits)
  next
    case (Some g)
    then obtain p where p: "map_of GRADE_POINTS (upper g) = Some p"
      using Cons.prems(3) by auto
    have cp: "course_points c = p * credit_hours c"
      using Some p by (simp add: course_points_def)
    have gp: "grade_to_points (Some g) = Inr (Some p)"
      using p by (simp add: grade_to_points_def)
    show ?thesis
    proof (cases "bad_hours c")
      case True
      then show ?thesis using notin Some gp by (auto simp: bad_hours_def)
    next
      case False
      then have "\<not> (credit_hours c \<le> 0 \<or> credit_hours c > 10)"
        using Some by (simp add: bad_hours_def)
      then show ?thesis using notin Some gp False cp IH
        by (simp add: graded_courses_simps split: option.splits)
    qed
  qed
qed

text \<open>A code that repeats an earlier one stops the loop, when the courses before it
  raise nothing themselves.\<close>

lemma gpa_loop_duplicate:
  assumes "\<forall>c\<in>set pre. Course_fields_ok c"
    and "distinct (map code pre)" and "set (map code pre) \<inter> seen = {}"
    and "code c \<in> seen \<union> set (map code pre)"
  shows "gpa_loop (pre @ c # post) tp tc seen = Inl (DuplicateCourse (code c))"
  using assms
proof (induction pre arbitrary: tp tc seen)
  case Nil
  then show ?case by simp
next
  case (Cons a pre)
  have notin: "code a \<notin> seen" using Cons.prems(3) by auto
  have ok: "Course_fields_ok a" using Cons.prems(1) by simp
  have IH: "\<And>tp tc. gpa_loop (pre @ c # post) tp tc (insert (code a) seen)
                = Inl (DuplicateCourse (code c))"
    using Cons.IH[of "insert (code a) seen"] Cons.prems by auto
  show ?case
  proof (cases "grade a")
    case None
    then show ?thesis using notin IH by simp
  next
    case (Some g)
    then have "g \<in> set GradeLetter" using ok by (simp add: Course_fields_ok_def)
    then obtain p where "grade_to_points (Some g) = Inr (Some p)"
      using grade_to_points_GradeLetter by blast
    then show ?thesis using notin IH Some ok
      by (simp add: Course_fields_ok_def)
  qed
qed

lemma not_distinct_decomp_map:
  assumes "\<not> distinct (map f xs)"
  shows "\<exists>pre c post. xs = pre @ c # post \<and> distinct (map f pre) \<and> f c \<in> set (map f pre)"
  using assms
proof (induction xs rule: rev_induct)
  case Nil
  then show ?case by simp
next
  case (snoc x xs)
  show ?case
  proof (cases "distinct (map f xs)")
    case True
    then have "f x \<in> set (map f xs)" using snoc.prems by auto
    then show ?thesis using True by (intro exI[of _ xs] exI[of _ x] exI[of _ "[]"]) simp
  next
    case False
    then obtain pre c post where "xs = pre @ c # post" "distinct (map f pre)" "f c \<in> set (map f pre)"
      using snoc.IH by blast
    then show ?thesis by (intro exI[of _ pre] exI[of _ c] exI[of _ "post @ [x]"]) simp
  qed
qed

lemma same_image_not_distinct:
  assumes "i < j" and "j < length xs" and "f (xs ! i) = f (xs ! j)"
  shows "\<not> distinct (map f xs)"
proof
  assume "distinct (map f xs)"
  moreover have "map f xs ! i = map f xs ! j" using assms by simp
  moreover have "i < length (map f xs)" "j < length (map f xs)" using assms by simp_all
  ultimately have "i = j"
    using nth_eq_iff_index_eq[of "map f xs" i j] by blast
  then show False using assms(1) by simp
qed

lemma compute_gpa_duplicate:
  assumes "\<forall>c\<in>set cs. Course_fields_ok c" and "\<not> distinct (map code cs)"
  shows "\<exists>k. compute_gpa cs = Inl (DuplicateCourse k) \<and> k \<in> set (map code cs)"
proof -
  obtain pre c post where d: "cs = pre @ c # post" "distinct (map code pre)"
      "code c \<in> set (map code pre)"
    using not_distinct_decomp_map[OF assms(2)] by blast
  have "gpa_loop (pre @ c # post) 0 0 {} = Inl (DuplicateCourse (code c))"
    by (rule gpa_loop_duplicate) (use assms(1) d in auto)
  then show ?thesis using d by (auto simp: compute_gpa_def)
qed

lemma compute_gpa_ok:
  assumes "\<forall>c\<in>set cs. Course_fields_ok c" and "distinct (map code cs)"
  shows "compute_gpa cs =
           Inr \<lparr>gpa = (if sum_list (map credit_hours (graded_courses cs)) > 0
                       then round3 (sum_list (map course_points (graded_courses cs))
                                     / sum_list (map credit_hours (graded_courses cs)))
                       else 0),
                total_points = round3 (sum_list (map course_points (graded_courses cs))),
                total_credits = round3 (sum_list (map credit_hours (graded_courses cs)))\<rparr>"
proof -
  have "find bad_hours cs = None"
    using assms(1) fields_ok_not_bad by (simp add: find_None_iff)
  moreover have "\<forall>c\<in>set cs. \<forall>g. grade c = Some g \<longrightarrow> map_of GRADE_POINTS (upper g) \<noteq> None"
    using assms(1) fields_ok_recognised by blast
  ultimately show ?thesis
    using gpa_loop_recognised[of cs "{}" 0 0] assms(2) by (simp add: compute_gpa_def)
qed

subsection \<open>The projection\<close>

text \<open>
  Claim C5. For a target of the table and a completed list of courses of the schema with
  no repeated code, \<^verbatim>\<open>project_needed_average\<close> called with \<^verbatim>\<open>remaining_credits <= 0\<close>
  returns \<^verbatim>\<open>needed_avg_gpa = 0.0\<close>, the threshold of the target as \<^verbatim>\<open>target_cgpa\<close> and
  the message that the classification is already determined, whatever the completed
  courses are worth.
\<close>

theorem C5_projection_early_exit:
  assumes "map_of HONORS_BANDS target = Some band"
    and "distinct (map code completed)"
    and "\<forall>c\<in>set completed. Course_fields_ok c"
    and "remaining_credits \<le> 0"
  shows "project_needed_average completed remaining_credits target =
           Inr \<lparr>proj_target_class = target, target_cgpa = band,
                needed_avg_gpa = 0, message = msg_determined\<rparr>"
  using assms compute_gpa_ok[OF assms(3) assms(2)]
  by (simp add: project_needed_average_def)

theorem C5_projection_early_exit_witness:
  "project_needed_average [course_of ''MATH101'' 3 (Some ''F'')] 0 ''First Class Honors'' =
     Inr \<lparr>proj_target_class = ''First Class Honors'', target_cgpa = 3.7,
          needed_avg_gpa = 0,
          message = ''No remaining credits. Your final classification is already determined.''\<rparr>"
  using C5_projection_early_exit[of "''First Class Honors''" "3.7"
          "[course_of ''MATH101'' 3 (Some ''F'')]" 0]
  by (simp add: HONORS_BANDS_def Course_fields_ok_def GradeLetter_def course_of_def
        msg_determined_def)

text \<open>
  Claim C10. When the target is a key of the table and two entries of the completed list
  of courses of the schema carry the same code, \<^verbatim>\<open>project_needed_average\<close> returns no
  projection: it fails with the duplicate-course error of \<^verbatim>\<open>compute_gpa\<close>, which names
  a code of the list.
\<close>

theorem C10_projection_duplicate:
  assumes "map_of HONORS_BANDS target = Some band"
    and "\<forall>c\<in>set completed. Course_fields_ok c"
    and "i < j" and "j < length completed"
    and "code (completed ! i) = code (completed ! j)"
  shows "\<exists>k. project_needed_average completed remaining_credits target = Inl (DuplicateCourse k)
             \<and> k \<in> set (map code completed)"
proof -
  have "\<not> distinct (map code completed)"
    using assms(3,4,5) by (rule same_image_not_distinct)
  then obtain k where "compute_gpa completed = Inl (DuplicateCourse k)"
      "k \<in> set (map code completed)"
    using compute_gpa_duplicate[OF assms(2)] by blast
  then show ?thesis using assms(1) by (auto simp: project_needed_average_def)
qed

theorem C10_projection_duplicate_witness:
  "project_needed_average
     [course_of ''DUP'' 3 (Some ''A''), course_of ''DUP'' 3 (Some ''B'')] 9 ''Second Class Upper''
   = Inl (DuplicateCourse ''DUP'')"
  using C10_projection_duplicate[of "''Second Class Upper''" "3.3"
          "[course_of ''DUP'' 3 (Some ''A''), course_of ''DUP'' 3 (Some ''B'')]" 0 1 9]
  by (simp add: HONORS_BANDS_def Course_fields_ok_def GradeLetter_def course_of_def)

text \<open>The clamp keeps \<^verbatim>\<open>needed_avg_gpa\<close> at 4 or below, so the test
  \<^verbatim>\<open>needed_avg_gpa > 4.0\<close> of line 159 never holds.\<close>

lemma msg_needed_not_unreachable: "msg_needed n t \<noteq> msg_unreachable t'"
  by (simp add: msg_needed_def msg_unreachable_def)

lemma msg_determined_not_unreachable: "msg_determined \<noteq> msg_unreachable t'"
  by (simp add: msg_determined_def msg_unreachable_def)

lemma project_message_cases:
  assumes "project_needed_average completed remaining_credits target = Inr resp"
  shows "message resp = msg_determined \<or> message resp = msg_needed (needed_avg_gpa resp) target"
proof -
  have le: "\<And>x. \<not> round3 (max 0 (min 4 x)) > 4"
    using round3_le_4 by (simp add: not_less)
  show ?thesis using assms
    by (auto simp: project_needed_average_def Let_def le split: option.splits sum.splits if_splits)
qed

lemma project_message_never_unreachable:
  assumes "project_needed_average completed remaining_credits target = Inr resp"
  shows "message resp \<noteq> msg_unreachable t'"
  using project_message_cases[OF assms] msg_needed_not_unreachable msg_determined_not_unreachable
  by metis

lemma project_clamped_above:
  assumes "map_of HONORS_BANDS target = Some band"
    and "compute_gpa completed = Inr current"
    and "remaining_credits > 0"
    and "(band * (total_credits current + remaining_credits) - total_points current)
           / remaining_credits > 4"
  shows "project_needed_average completed remaining_credits target =
           Inr \<lparr>proj_target_class = target, target_cgpa = band,
                needed_avg_gpa = 4, message = msg_needed 4 target\<rparr>"
proof -
  have "min 4 ((band * (total_credits current + remaining_credits) - total_points current)
           / remaining_credits) = 4"
    using assms(4) by simp
  then show ?thesis using assms(1,2,3)
    by (simp add: project_needed_average_def Let_def round3_4)
qed

text \<open>
  Claim C1. When the required average over the remaining credits exceeds 4.0, the
  projection is to return \<^verbatim>\<open>needed_avg_gpa = 4.0\<close> with the message that the target
  cannot be reached. On one completed course of 3 credits graded F, 1 remaining credit
  and the target First Class Honors, the required average is 14.8; the function returns
  4.0, but with the ordinary message about the average that is needed, not with the
  message of line 160.
\<close>

theorem C1_unreachable_message_missing:
  "project_needed_average [course_of ''MATH101'' 3 (Some ''F'')] 1 ''First Class Honors'' =
     Inr \<lparr>proj_target_class = ''First Class Honors'', target_cgpa = 3.7,
          needed_avg_gpa = 4,
          message = ''You need an average GPA of 4.0 across the remaining credits to achieve First Class Honors.''\<rparr>
   \<and> compute_gpa [course_of ''MATH101'' 3 (Some ''F'')] =
       Inr \<lparr>gpa = 0, total_points = 0, total_credits = 3\<rparr>
   \<and> (3.7 * (3 + 1) - 0) / 1 > (4 :: real)
   \<and> msg_unreachable ''First Class Honors'' \<noteq>
       ''You need an average GPA of 4.0 across the remaining credits to achieve First Class Honors.''"
  by code_simp

subsection \<open>Totals and credit hours in \<^verbatim>\<open>compute_gpa\<close>\<close>




lemma find_Some_ex: "(\<exists>x. find P xs = Some x) \<longleftrightarrow> (\<exists>x\<in>set xs. P x)"
  by (induction xs) auto




text \<open>
  Claim C8. In a computation whose codes do not repeat and whose grades are letters of
  the table, \<^verbatim>\<open>compute_gpa\<close> fails with the invalid-credit-hours error exactly when
  some graded course has \<^verbatim>\<open>credit_hours <= 0\<close> or \<^verbatim>\<open>credit_hours > 10\<close>, and returns a
  result when every graded course is within the range. Credit hours of exactly 10 are
  accepted, exactly 0 and 10.0001 are rejected. The credit hours of an ungraded course
  are not looked at.
\<close>

theorem C8_credit_hours_check:
  assumes "distinct (map code cs)"
    and "\<forall>c\<in>set cs. \<forall>g. grade c = Some g \<longrightarrow> g \<in> set GradeLetter"
  shows "((\<exists>k. compute_gpa cs = Inl (InvalidCreditHours k)) \<longleftrightarrow>
            (\<exists>c\<in>set cs. grade c \<noteq> None \<and> (credit_hours c \<le> 0 \<or> credit_hours c > 10)))
         \<and> ((\<forall>c\<in>set cs. grade c \<noteq> None \<longrightarrow> 0 < credit_hours c \<and> credit_hours c \<le> 10)
               \<longrightarrow> (\<exists>r. compute_gpa cs = Inr r))
         \<and> compute_gpa [course_of ''T1'' 10 (Some ''A'')] =
             Inr \<lparr>gpa = 4, total_points = 40, total_credits = 10\<rparr>
         \<and> compute_gpa [course_of ''T1'' 0 (Some ''A'')] = Inl (InvalidCreditHours ''T1'')
         \<and> compute_gpa [course_of ''T1'' 10.0001 (Some ''A'')] = Inl (InvalidCreditHours ''T1'')"
proof -
  have rec: "\<forall>c\<in>set cs. \<forall>g. grade c = Some g \<longrightarrow> map_of GRADE_POINTS (upper g) \<noteq> None"
    using assms(2) grade_points_GradeLetter by fastforce
  have loop: "gpa_loop cs 0 0 {} =
           (case find bad_hours cs of
              Some c \<Rightarrow> Inl (InvalidCreditHours (code c))
            | None \<Rightarrow> Inr (0 + sum_list (map course_points (graded_courses cs)),
                           0 + sum_list (map credit_hours (graded_courses cs))))"
    using gpa_loop_recognised[OF assms(1) _ rec, of "{}" 0 0] by simp
  have bad: "(\<exists>c. find bad_hours cs = Some c) \<longleftrightarrow>
               (\<exists>c\<in>set cs. grade c \<noteq> None \<and> (credit_hours c \<le> 0 \<or> credit_hours c > 10))"
    unfolding find_Some_ex by (simp add: bad_hours_def)
  have a: "(\<exists>k. compute_gpa cs = Inl (InvalidCreditHours k)) \<longleftrightarrow>
            (\<exists>c\<in>set cs. grade c \<noteq> None \<and> (credit_hours c \<le> 0 \<or> credit_hours c > 10))"
    unfolding bad[symmetric] compute_gpa_def loop by (auto split: option.splits)
  have b: "(\<forall>c\<in>set cs. grade c \<noteq> None \<longrightarrow> 0 < credit_hours c \<and> credit_hours c \<le> 10)
               \<longrightarrow> (\<exists>r. compute_gpa cs = Inr r)"
  proof
    assume "\<forall>c\<in>set cs. grade c \<noteq> None \<longrightarrow> 0 < credit_hours c \<and> credit_hours c \<le> 10"
    then have "\<not> (\<exists>c\<in>set cs. grade c \<noteq> None \<and> (credit_hours c \<le> 0 \<or> credit_hours c > 10))"
      by fastforce
    then have "find bad_hours cs = None" using bad by (cases "find bad_hours cs") auto
    then show "\<exists>r. compute_gpa cs = Inr r" by (simp add: compute_gpa_def loop)
  qed
  have c1: "compute_gpa [course_of ''T1'' 10 (Some ''A'')] =
             Inr \<lparr>gpa = 4, total_points = 40, total_credits = 10\<rparr>" by code_simp
  have c2: "compute_gpa [course_of ''T1'' 0 (Some ''A'')] = Inl (InvalidCreditHours ''T1'')"
    by code_simp
  have c3: "compute_gpa [course_of ''T1'' 10.0001 (Some ''A'')] = Inl (InvalidCreditHours ''T1'')"
    by code_simp
  show ?thesis using a b c1 c2 c3 by blast
qed

theorem C8_credit_hours_check_witness:
  "(\<exists>k. compute_gpa [course_of ''T1'' 3 (Some ''A''), course_of ''T2'' 11 (Some ''B'')]
           = Inl (InvalidCreditHours k))
   \<and> (\<exists>r. compute_gpa [course_of ''T1'' 3 (Some ''A''), course_of ''T2'' 11 None] = Inr r)"
proof -
  let ?bad = "[course_of ''T1'' 3 (Some ''A''), course_of ''T2'' 11 (Some ''B'')]"
  let ?good = "[course_of ''T1'' 3 (Some ''A''), course_of ''T2'' 11 None]"
  have d1: "distinct (map code ?bad)" and d2: "distinct (map code ?good)"
    by (simp_all add: course_of_def)
  have g1: "\<forall>c\<in>set ?bad. \<forall>g. grade c = Some g \<longrightarrow> g \<in> set GradeLetter"
    and g2: "\<forall>c\<in>set ?good. \<forall>g. grade c = Some g \<longrightarrow> g \<in> set GradeLetter"
    by (simp_all add: course_of_def GradeLetter_def)
  have "\<exists>k. compute_gpa ?bad = Inl (InvalidCreditHours k)"
    using C8_credit_hours_check[OF d1 g1] by (simp add: course_of_def)
  moreover have "\<exists>r. compute_gpa ?good = Inr r"
    using C8_credit_hours_check[OF d2 g2] by (simp add: course_of_def)
  ultimately show ?thesis by blast
qed

subsection \<open>The cumulative figure\<close>







subsection \<open>The classifier\<close>

lemma classify_loop_find:
  "classify_loop bands x =
     (case find (\<lambda>(label, threshold). threshold \<le> x) bands of
        None \<Rightarrow> ''Fail''
      | Some (label, threshold) \<Rightarrow> label)"
  by (induction bands x rule: classify_loop.induct) auto

text \<open>
  Claim C4. For every real input, \<^verbatim>\<open>classify_honors\<close> returns the label of the first
  band of the table whose threshold is at most the input, and \<^verbatim>\<open>Fail\<close> when the input
  is below every threshold; the thresholds of the table decrease strictly; it is a total
  function; and at the exact threshold of a band it returns that band.
\<close>

theorem C4_classify_first_band:
  "classify_honors x = classify_spec x
   \<and> map snd HONORS_BANDS = [3.7, 3.3, 2.7, 2.0]
   \<and> sorted_wrt (>) (map snd HONORS_BANDS)
   \<and> classify_honors x =
       (if 3.7 \<le> x then ''First Class Honors''
        else if 3.3 \<le> x then ''Second Class Upper''
        else if 2.7 \<le> x then ''Second Class Lower''
        else if 2 \<le> x then ''Pass'' else ''Fail'')
   \<and> ((\<forall>(label, threshold) \<in> set HONORS_BANDS. x < threshold) \<longrightarrow> classify_honors x = ''Fail'')
   \<and> (\<forall>(label, threshold) \<in> set HONORS_BANDS. classify_honors threshold = label)"
proof -
  have a: "classify_honors x = classify_spec x"
    by (simp add: classify_honors_def classify_spec_def classify_loop_find)
  have b: "\<And>y. classify_honors y =
       (if 3.7 \<le> y then ''First Class Honors''
        else if 3.3 \<le> y then ''Second Class Upper''
        else if 2.7 \<le> y then ''Second Class Lower''
        else if 2 \<le> y then ''Pass'' else ''Fail'')"
    by (simp add: classify_honors_def HONORS_BANDS_def)
  have c: "map snd HONORS_BANDS = [3.7, 3.3, 2.7, 2.0]" by (simp add: HONORS_BANDS_def)
  have d: "sorted_wrt (>) (map snd HONORS_BANDS)" by (simp add: HONORS_BANDS_def)
  have e: "(\<forall>(label, threshold) \<in> set HONORS_BANDS. x < threshold) \<longrightarrow> classify_honors x = ''Fail''"
    unfolding b by (simp add: HONORS_BANDS_def)
  have f: "\<forall>(label, threshold) \<in> set HONORS_BANDS. classify_honors threshold = label"
    unfolding b by (simp add: HONORS_BANDS_def)
  show ?thesis using a b[of x] c d e f by (intro conjI)
qed

theorem C4_classify_first_band_witness:
  "classify_honors 3.70 = ''First Class Honors''
   \<and> classify_honors 3.30 = ''Second Class Upper''
   \<and> classify_honors 3.6999 = ''Second Class Upper''
   \<and> classify_honors (-1) = ''Fail''
   \<and> classify_honors 5 = ''First Class Honors''"
proof -
  have bands: "set HONORS_BANDS =
      {(''First Class Honors'', 3.7), (''Second Class Upper'', 3.3),
       (''Second Class Lower'', 2.7), (''Pass'', 2)}"
    by (simp add: HONORS_BANDS_def)
  note at_threshold = C4_classify_first_band[of 0, THEN conjunct2, THEN conjunct2,
      THEN conjunct2, THEN conjunct2, THEN conjunct2]
  note below_all = C4_classify_first_band[of "-1", THEN conjunct2, THEN conjunct2,
      THEN conjunct2, THEN conjunct2, THEN conjunct1]
  note bands_of = C4_classify_first_band[THEN conjunct2, THEN conjunct2,
      THEN conjunct2, THEN conjunct1]
  have "classify_honors 3.70 = ''First Class Honors''"
       "classify_honors 3.30 = ''Second Class Upper''"
    using at_threshold unfolding bands by simp_all
  moreover have "classify_honors 3.6999 = ''Second Class Upper''"
    using bands_of[of "3.6999"] by simp
  moreover have "classify_honors (-1) = ''Fail''"
    using below_all unfolding bands by simp
  moreover have "classify_honors 5 = ''First Class Honors''"
    using bands_of[of 5] by simp
  ultimately show ?thesis by (intro conjI)
qed

subsection \<open>Normalised codes and duplicates\<close>

lemma Course_validate_Some:
  assumes "Course_validate raw = Some c"
  shows "code c = normalize_code (code raw)" and "Course_fields_ok c"
  using assms
  by (auto simp: Course_validate_def Course_fields_ok_def split: if_splits)

lemma Course_validate_list:
  assumes "map Course_validate raws = map Some cs"
  shows "map code cs = map (\<lambda>r. normalize_code (code r)) raws \<and> (\<forall>c\<in>set cs. Course_fields_ok c)"
  using assms
proof (induction raws arbitrary: cs)
  case Nil
  then show ?case by simp
next
  case (Cons raw raws)
  then obtain c cs' where cs: "cs = c # cs'" "Course_validate raw = Some c"
      "map Course_validate raws = map Some cs'"
    by (cases cs) auto
  show ?case using Cons.IH[OF cs(3)] Course_validate_Some[OF cs(2)] cs(1) by simp
qed

lemma compute_gpa_first_repeat:
  assumes "\<forall>c\<in>set cs. Course_fields_ok c"
    and "i < j" and "j < length cs"
    and "code (cs ! i) = code (cs ! j)"
    and "distinct (map code (take j cs))"
  shows "compute_gpa cs = Inl (DuplicateCourse (code (cs ! j)))"
proof -
  have split: "cs = take j cs @ cs ! j # drop (Suc j) cs"
    using assms(3) by (rule id_take_nth_drop)
  have "take j cs ! i = cs ! i" using assms(2) by simp
  moreover have "i < length (take j cs)" using assms(2,3) by simp
  ultimately have "cs ! i \<in> set (take j cs)" by (metis nth_mem)
  then have "code (cs ! i) \<in> code ` set (take j cs)" by (rule imageI)
  then have mem: "code (cs ! j) \<in> {} \<union> set (map code (take j cs))"
    using assms(4) by simp
  have ok: "\<forall>c\<in>set (take j cs). Course_fields_ok c"
    using assms(1) by (meson in_set_takeD)
  have "gpa_loop (take j cs @ cs ! j # drop (Suc j) cs) 0 0 {}
          = Inl (DuplicateCourse (code (cs ! j)))"
    by (rule gpa_loop_duplicate[OF ok assms(5) _ mem]) simp
  then have "gpa_loop cs 0 0 {} = Inl (DuplicateCourse (code (cs ! j)))"
    using split by simp
  then show ?thesis by (simp add: compute_gpa_def)
qed

text \<open>
  Claim C6. Take course entries that all pass the schema, two of which have raw codes
  with the same normalised form (they differ only in letter case or in white space at the
  ends). Then \<^verbatim>\<open>compute_gpa\<close> on the constructed courses fails with the duplicate-course
  error, which names a normalised code; it names the normalised code of the pair when no
  code repeats before the second entry of the pair, as the loop reports the first repeat
  it meets. The codes \<^verbatim>\<open>" t1 "\<close> and \<^verbatim>\<open>"T1"\<close> both become \<^verbatim>\<open>"T1"\<close>.
\<close>

theorem C6_normalized_duplicate:
  assumes "map Course_validate raws = map Some cs"
    and "i < j" and "j < length raws"
    and "normalize_code (code (raws ! i)) = normalize_code (code (raws ! j))"
  shows "(\<exists>k. compute_gpa cs = Inl (DuplicateCourse k)
              \<and> k \<in> set (map (\<lambda>r. normalize_code (code r)) raws))
         \<and> (distinct (map (\<lambda>r. normalize_code (code r)) (take j raws)) \<longrightarrow>
               compute_gpa cs = Inl (DuplicateCourse (normalize_code (code (raws ! j)))))"
proof -
  have codes: "map code cs = map (\<lambda>r. normalize_code (code r)) raws"
    and ok: "\<forall>c\<in>set cs. Course_fields_ok c"
    using Course_validate_list[OF assms(1)] by simp_all
  have len: "length cs = length raws"
    using codes by (metis length_map)
  have j: "j < length cs" using assms(3) len by simp
  have ci: "code (cs ! i) = normalize_code (code (raws ! i))"
    using codes assms(2,3) len by (metis (no_types, lifting) nth_map order.strict_trans)
  have cj: "code (cs ! j) = normalize_code (code (raws ! j))"
    using codes assms(3) len by (metis (no_types, lifting) nth_map)
  have same: "code (cs ! i) = code (cs ! j)" using ci cj assms(4) by simp
  have "\<not> distinct (map code cs)"
    using assms(2) j same by (rule same_image_not_distinct)
  then have a: "\<exists>k. compute_gpa cs = Inl (DuplicateCourse k)
              \<and> k \<in> set (map (\<lambda>r. normalize_code (code r)) raws)"
    using compute_gpa_duplicate[OF ok] codes by simp
  have b: "distinct (map (\<lambda>r. normalize_code (code r)) (take j raws)) \<longrightarrow>
               compute_gpa cs = Inl (DuplicateCourse (normalize_code (code (raws ! j))))"
  proof
    assume "distinct (map (\<lambda>r. normalize_code (code r)) (take j raws))"
    then have "distinct (take j (map code cs))" using codes by (simp add: take_map)
    then have "distinct (map code (take j cs))" by (simp add: take_map)
    then show "compute_gpa cs = Inl (DuplicateCourse (normalize_code (code (raws ! j))))"
      using compute_gpa_first_repeat[OF ok assms(2) j same] cj by simp
  qed
  show ?thesis using a b by (rule conjI)
qed

theorem C6_normalized_duplicate_witness:
  "normalize_code '' t1 '' = ''T1'' \<and> normalize_code ''T1'' = ''T1''
   \<and> compute_gpa
       [\<lparr>code = ''T1'', name = ''Test 1'', credit_hours = 3, grade = Some ''A'',
          semester = None, category = None\<rparr>,
        \<lparr>code = ''T1'', name = ''Test 2'', credit_hours = 3, grade = Some ''B'',
          semester = None, category = None\<rparr>]
     = Inl (DuplicateCourse ''T1'')"
proof -
  let ?raws = "[\<lparr>code = '' t1 '', name = ''Test 1'', credit_hours = 3, grade = Some ''A'',
                  semester = None, category = None\<rparr>,
                \<lparr>code = ''T1'', name = ''Test 2'', credit_hours = 3, grade = Some ''B'',
                  semester = None, category = None\<rparr>]"
  let ?cs = "[\<lparr>code = ''T1'', name = ''Test 1'', credit_hours = 3, grade = Some ''A'',
                semester = None, category = None\<rparr>,
              \<lparr>code = ''T1'', name = ''Test 2'', credit_hours = 3, grade = Some ''B'',
                semester = None, category = None\<rparr>]"
  have n1: "normalize_code '' t1 '' = ''T1''" by code_simp
  have n2: "normalize_code ''T1'' = ''T1''" by code_simp
  have v: "map Course_validate ?raws = map Some ?cs" by code_simp
  have e: "normalize_code (code (?raws ! 0)) = normalize_code (code (?raws ! 1))"
    using n1 n2 by simp
  have d: "distinct (map (\<lambda>r. normalize_code (code r)) (take 1 ?raws))" by simp
  have "compute_gpa ?cs = Inl (DuplicateCourse (normalize_code (code (?raws ! 1))))"
    using C6_normalized_duplicate[OF v _ _ e, THEN conjunct2] d by simp
  then show ?thesis using n1 n2 by simp
qed

subsection \<open>The advice generator\<close>



















end
